theory Spec2Isabelle
  imports Main "HOL-Library.Sublist"
begin

section \<open>Company news monitoring agent: the search adapter and the news endpoint\<close>

text \<open>
  A shallow embedding of \<^verbatim>\<open>upsonicai.py\<close>. The module has two pieces of logic:
  \<^verbatim>\<open>SerpAPITool.search\<close>, which turns one response of the external search service into a
  list of \<^verbatim>\<open>News\<close> objects, and the handler \<^verbatim>\<open>get_company_news\<close>, which hands a task to
  the agent and forwards its structured response.

  The collaborators that live outside the module (the process environment, \<^verbatim>\<open>json.dumps\<close>,
  \<^verbatim>\<open>requests.post\<close>, the agent) are parameters of the model. Every \<^verbatim>\<open>raise\<close> is a value
  \<open>Inl e\<close>; every outbound request and every agent invocation is recorded in a log that
  is returned next to the result.
\<close>

subsection \<open>Data\<close>

text \<open>
  A decoded JSON document, as \<^verbatim>\<open>response.json()\<close> returns it. A Python dict is kept as an
  association list read with \<open>map_of\<close>. The code never inspects a number.
\<close>

datatype json =
    JNull
  | JBool bool
  | JNum int
  | JStr string
  | JArr "json list"
  | JObj "(string \<times> json) list"

text \<open>
  The exceptions the module raises itself (\<^verbatim>\<open>HTTPException\<close> with its status code and detail)
  and the ones the Python runtime and the libraries raise on its behalf.
\<close>

datatype error =
    HTTPException int string
  | ConnectionError
  | JSONDecodeError
  | AttributeError
  | TypeError
  | ValidationError
  | RequestValidationError

text \<open>\<^verbatim>\<open>class CompanyInput(BaseModel): company_name: str\<close>\<close>

record CompanyInput =
  company_name :: string

text \<open>\<^verbatim>\<open>class News(ObjectResponse): title: str; url: str; snippet: str\<close>\<close>

record News =
  title :: string
  url :: string
  snippet :: string

text \<open>\<^verbatim>\<open>class NewsResponse(ObjectResponse): articles: list[News]\<close>\<close>

record NewsResponse =
  articles :: "News list"

text \<open>The request \<^verbatim>\<open>requests.post(url, headers=headers, data=payload)\<close> sends.\<close>

record http_request =
  req_url :: string
  req_headers :: "(string \<times> string) list"
  req_data :: string

text \<open>
  What the code reads of a \<^verbatim>\<open>requests.Response\<close>: \<^verbatim>\<open>status_code\<close>, \<^verbatim>\<open>text\<close> and the value of
  \<^verbatim>\<open>json()\<close>, which is \<open>None\<close> when the body is not JSON and the call raises.
\<close>

record http_response =
  status_code :: int
  response_text :: string
  response_json :: "json option"

text \<open>
  The collaborators of \<^verbatim>\<open>SerpAPITool.search\<close>: \<^verbatim>\<open>os.getenv\<close> reads \<open>environ\<close>,
  \<^verbatim>\<open>json.dumps\<close> is \<open>dumps\<close>, \<^verbatim>\<open>requests.post\<close> is \<open>post\<close> and either returns a response or
  raises a transport error.
\<close>

record world =
  environ :: "string \<Rightarrow> string option"
  dumps :: "json \<Rightarrow> string"
  post :: "http_request \<Rightarrow> error + http_response"

text \<open>The tools and the response format a \<^verbatim>\<open>Task\<close> is built with.\<close>

datatype tool = Search | SerpAPITool

datatype response_schema = NewsResponseSchema

record Task =
  description :: string
  tools :: "tool list"
  response_format :: response_schema

text \<open>
  The dict the handler returns,
  \<^verbatim>\<open>{"company_name": input_data.company_name, "articles": news_data.articles}\<close>.
\<close>

record NewsReport =
  report_company_name :: string
  report_articles :: "News list"

text \<open>
  \<^verbatim>\<open>news_agent.do(news_task)\<close> followed by \<^verbatim>\<open>news_task.response\<close>: the agent is opaque. It
  raises, or leaves no response (\<open>None\<close>), or leaves a \<^verbatim>\<open>NewsResponse\<close> object.
\<close>

type_synonym agent = "Task \<Rightarrow> error + NewsResponse option"

subsection \<open>The search adapter\<close>

text \<open>\<^verbatim>\<open>d.get(key, default)\<close> on a value: only a dict has the method.\<close>

definition py_get :: "json \<Rightarrow> string \<Rightarrow> json \<Rightarrow> error + json" where
  "py_get d key dflt =
     (case d of
        JObj kvs \<Rightarrow> (case map_of kvs key of None \<Rightarrow> Inr dflt | Some v \<Rightarrow> Inr v)
      | _ \<Rightarrow> Inl AttributeError)"

text \<open>
  \<^verbatim>\<open>for result in search_results[:10]\<close>: the elements the comprehension iterates over.
  A list gives its first ten elements, a string its first ten characters (each a string
  of length one); no other JSON value can be sliced (a dict raises \<^verbatim>\<open>TypeError\<close>, or
  \<^verbatim>\<open>KeyError\<close> from Python 3.12 on; the model has one error for both). Python counts
  code points where \<open>take\<close> counts bytes; the outcome is the same, since every non-empty
  string makes the first element raise.
\<close>

definition slice10 :: "json \<Rightarrow> error + json list" where
  "slice10 search_results =
     (case search_results of
        JArr rs \<Rightarrow> Inr (take 10 rs)
      | JStr s \<Rightarrow> Inr (map (\<lambda>c. JStr [c]) (take 10 s))
      | _ \<Rightarrow> Inl TypeError)"

text \<open>
  The constructor \<^verbatim>\<open>News(title=..., url=..., snippet=...)\<close>: the three fields are declared
  \<^verbatim>\<open>str\<close>, and the validation of the base model refuses any other value.
\<close>

definition News_init :: "json \<Rightarrow> json \<Rightarrow> json \<Rightarrow> error + News" where
  "News_init t u s =
     (case t of
        JStr t' \<Rightarrow>
          (case u of
             JStr u' \<Rightarrow>
               (case s of
                  JStr s' \<Rightarrow> Inr \<lparr>title = t', url = u', snippet = s'\<rparr>
                | _ \<Rightarrow> Inl ValidationError)
           | _ \<Rightarrow> Inl ValidationError)
      | _ \<Rightarrow> Inl ValidationError)"

text \<open>
  The element of the comprehension:
  \<^verbatim>\<open>News(title=result.get("title", "No Title"), url=result.get("link", "#"),
       snippet=result.get("snippet", "No Description"))\<close>.
  The three arguments are evaluated left to right, then the constructor runs.
\<close>

definition News_of_result :: "json \<Rightarrow> error + News" where
  "News_of_result result =
     (case py_get result ''title'' (JStr ''No Title'') of
        Inl e \<Rightarrow> Inl e
      | Inr t \<Rightarrow>
          (case py_get result ''link'' (JStr ''#'') of
             Inl e \<Rightarrow> Inl e
           | Inr u \<Rightarrow>
               (case py_get result ''snippet'' (JStr ''No Description'') of
                  Inl e \<Rightarrow> Inl e
                | Inr s \<Rightarrow> News_init t u s)))"

text \<open>The list comprehension: the first element that raises ends it.\<close>

fun News_list :: "json list \<Rightarrow> error + News list" where
  "News_list [] = Inr []"
| "News_list (result # rest) =
     (case News_of_result result of
        Inl e \<Rightarrow> Inl e
      | Inr a \<Rightarrow> (case News_list rest of Inl e \<Rightarrow> Inl e | Inr as \<Rightarrow> Inr (a # as)))"

text \<open>The branch \<^verbatim>\<open>if response.status_code == 200\<close> and its \<^verbatim>\<open>else\<close>.\<close>

definition handle_response :: "http_response \<Rightarrow> error + News list" where
  "handle_response response =
     (if status_code response = 200 then
        (case response_json response of
           None \<Rightarrow> Inl JSONDecodeError
         | Some data \<Rightarrow>
             (case py_get data ''organic'' (JArr []) of
                Inl e \<Rightarrow> Inl e
              | Inr search_results \<Rightarrow>
                  (case slice10 search_results of
                     Inl e \<Rightarrow> Inl e
                   | Inr rs \<Rightarrow> News_list rs)))
      else Inl (HTTPException 500 (''SerpAPI Request Failed: '' @ response_text response)))"

text \<open>
  The request of lines 41 to 48: the fixed endpoint, the two headers and the payload
  \<^verbatim>\<open>json.dumps({"q": query})\<close>.
\<close>

definition search_request :: "world \<Rightarrow> string \<Rightarrow> string \<Rightarrow> http_request" where
  "search_request w api_key query =
     \<lparr>req_url = ''https://google.serper.dev/search'',
      req_headers = [(''X-API-KEY'', api_key), (''Content-Type'', ''application/json'')],
      req_data = dumps w (JObj [(''q'', JStr query)])\<rparr>"

text \<open>
  \<^verbatim>\<open>SerpAPITool.search(query)\<close>. The first component of the value is the list of requests
  sent to the network, the second what the call returns or raises. \<^verbatim>\<open>not api_key\<close> holds
  for an unset variable and for an empty one.
\<close>

definition search :: "world \<Rightarrow> string \<Rightarrow> http_request list \<times> (error + News list)" where
  "search w query =
     (case environ w ''SERPAPI_API_KEY'' of
        None \<Rightarrow> ([], Inl (HTTPException 500 ''SerpAPI API Key not found!''))
      | Some api_key \<Rightarrow>
          if api_key = [] then ([], Inl (HTTPException 500 ''SerpAPI API Key not found!''))
          else
            let request = search_request w api_key query
            in (case post w request of
                  Inl e \<Rightarrow> ([request], Inl e)
                | Inr response \<Rightarrow> ([request], handle_response response)))"

subsection \<open>The endpoint\<close>

text \<open>
  The task of lines 70 to 74,
  \<^verbatim>\<open>Task(description=f"Fetch the latest news about {input_data.company_name}.",
       tools=[Search, SerpAPITool], response_format=NewsResponse)\<close>.
\<close>

definition Task_of :: "CompanyInput \<Rightarrow> Task" where
  "Task_of input_data =
     \<lparr>description = ''Fetch the latest news about '' @ company_name input_data @ ''.'',
      tools = [Search, SerpAPITool],
      response_format = NewsResponseSchema\<rparr>"

text \<open>
  The handler \<^verbatim>\<open>get_company_news(input_data)\<close>. The first component of the value is the list
  of tasks handed to the agent. Any response object is truthy, so \<^verbatim>\<open>not news_data\<close> holds
  exactly when the task has no response.
\<close>

definition get_company_news :: "agent \<Rightarrow> CompanyInput \<Rightarrow> Task list \<times> (error + NewsReport)" where
  "get_company_news news_agent input_data =
     (let news_task = Task_of input_data
      in (case news_agent news_task of
            Inl e \<Rightarrow> ([news_task], Inl e)
          | Inr news_data \<Rightarrow>
              (case news_data of
                 None \<Rightarrow> ([news_task], Inl (HTTPException 500 ''Failed to fetch company news.''))
               | Some nd \<Rightarrow>
                   ([news_task],
                    Inr \<lparr>report_company_name = company_name input_data,
                         report_articles = articles nd\<rparr>))))"

text \<open>
  The request schema of the route: the body must be an object whose \<^verbatim>\<open>company_name\<close> is a
  string. The declaration \<^verbatim>\<open>company_name: str\<close> carries no length constraint.
\<close>

definition CompanyInput_validate :: "json \<Rightarrow> error + CompanyInput" where
  "CompanyInput_validate body =
     (case body of
        JObj kvs \<Rightarrow>
          (case map_of kvs ''company_name'' of
             Some (JStr s) \<Rightarrow> Inr \<lparr>company_name = s\<rparr>
           | _ \<Rightarrow> Inl RequestValidationError)
      | _ \<Rightarrow> Inl RequestValidationError)"

text \<open>
  The route \<^verbatim>\<open>@app.post("/get-company-news/")\<close>: the body is validated against
  \<^verbatim>\<open>CompanyInput\<close>, and the handler runs only on a valid body.
\<close>

definition post_get_company_news :: "agent \<Rightarrow> json \<Rightarrow> Task list \<times> (error + NewsReport)" where
  "post_get_company_news news_agent body =
     (case CompanyInput_validate body of
        Inl e \<Rightarrow> ([], Inl e)
      | Inr input_data \<Rightarrow> get_company_news news_agent input_data)"

subsection \<open>Well-formed upstream entries\<close>

text \<open>
  The entries the search service documents: an object whose \<^verbatim>\<open>title\<close>, \<^verbatim>\<open>link\<close> and
  \<^verbatim>\<open>snippet\<close>, where present, are strings. On any other entry the comprehension raises.
\<close>

definition str_or_absent :: "(string \<times> json) list \<Rightarrow> string \<Rightarrow> bool" where
  "str_or_absent kvs key =
     (case map_of kvs key of None \<Rightarrow> True | Some (JStr s) \<Rightarrow> True | Some _ \<Rightarrow> False)"

definition wf_result :: "json \<Rightarrow> bool" where
  "wf_result result =
     (case result of
        JObj kvs \<Rightarrow>
          str_or_absent kvs ''title'' \<and> str_or_absent kvs ''link'' \<and> str_or_absent kvs ''snippet''
      | _ \<Rightarrow> False)"

text \<open>An entry none of whose three fields is supplied as the empty string.\<close>

definition supplied_nonempty :: "json \<Rightarrow> bool" where
  "supplied_nonempty result =
     (case result of
        JObj kvs \<Rightarrow>
          map_of kvs ''title'' \<noteq> Some (JStr []) \<and> map_of kvs ''link'' \<noteq> Some (JStr [])
          \<and> map_of kvs ''snippet'' \<noteq> Some (JStr [])
      | _ \<Rightarrow> True)"

section \<open>Properties\<close>

subsection \<open>The comprehension\<close>

lemma News_list_map:
  "News_list rs = Inr arts \<longleftrightarrow> map News_of_result rs = map Inr arts"
proof (induction rs arbitrary: arts)
  case Nil
  show ?case by auto
next
  case (Cons r rs)
  show ?case
  proof (cases "News_of_result r")
    case (Inl e)
    then show ?thesis by (cases arts) auto
  next
    case a: (Inr a)
    show ?thesis
    proof (cases "News_list rs")
      case (Inl e)
      have "map News_of_result rs \<noteq> map Inr bs" for bs
        using Cons.IH [of bs] Inl by simp
      with a Inl show ?thesis by (cases arts) auto
    next
      case (Inr as)
      then have "map News_of_result rs = map Inr as"
        using Cons.IH [of as] by simp
      with a Inr show ?thesis by (cases arts) auto
    qed
  qed
qed

lemma News_list_length: "News_list rs = Inr arts \<Longrightarrow> length arts = length rs"
  by (metis News_list_map length_map)

lemma wf_result_News:
  assumes "wf_result (JObj kvs)"
  shows "\<exists>a. News_of_result (JObj kvs) = Inr a
           \<and> (case map_of kvs ''title'' of None \<Rightarrow> title a = ''No Title''
                | Some v \<Rightarrow> v = JStr (title a))
           \<and> (case map_of kvs ''link'' of None \<Rightarrow> url a = ''#''
                | Some v \<Rightarrow> v = JStr (url a))
           \<and> (case map_of kvs ''snippet'' of None \<Rightarrow> snippet a = ''No Description''
                | Some v \<Rightarrow> v = JStr (snippet a))"
  using assms
  by (auto simp: wf_result_def str_or_absent_def News_of_result_def py_get_def News_init_def
           split: option.splits json.splits)

lemma wf_result_Inr: "wf_result r \<Longrightarrow> \<exists>a. News_of_result r = Inr a"
  using wf_result_News by (cases r) (auto simp: wf_result_def)

lemma wf_News_list: "\<forall>r\<in>set rs. wf_result r \<Longrightarrow> \<exists>arts. News_list rs = Inr arts"
proof (induction rs)
  case Nil
  show ?case by simp
next
  case (Cons r rs)
  then obtain a as where "News_of_result r = Inr a" "News_list rs = Inr as"
    using wf_result_Inr [of r] by auto
  then show ?case by simp
qed

lemma search_with_key:
  assumes "environ w ''SERPAPI_API_KEY'' = Some k" "k \<noteq> []"
    and "post w (search_request w k query) = Inr response"
  shows "search w query = ([search_request w k query], handle_response response)"
  using assms by (simp add: search_def)

lemma handle_response_organic:
  assumes "status_code response = 200" "response_json response = Some (JObj d)"
    and "map_of d ''organic'' = Some (JArr rs)"
  shows "handle_response response = News_list (take 10 rs)"
  using assms by (simp add: handle_response_def py_get_def slice10_def)

lemma search_length:
  assumes "snd (search w query) = Inr arts"
  shows "length arts \<le> 10"
proof -
  have h: "handle_response response = Inr arts \<Longrightarrow> length arts \<le> 10" for response
    by (auto simp: handle_response_def py_get_def slice10_def
             split: if_splits option.splits json.splits sum.splits
             dest!: News_list_length)
  from assms show ?thesis
    by (auto simp: search_def Let_def split: option.splits if_splits sum.splits dest: h)
qed

lemma get_company_news_Inr:
  "snd (get_company_news news_agent input_data) = Inr report \<longleftrightarrow>
     (\<exists>nd. news_agent (Task_of input_data) = Inr (Some nd)
        \<and> report = \<lparr>report_company_name = company_name input_data,
                      report_articles = articles nd\<rparr>)"
  by (auto simp: get_company_news_def Let_def split: sum.splits option.splits)

lemma News_of_result_nonempty:
  assumes "wf_result r" and "supplied_nonempty r" and "News_of_result r = Inr a"
  shows "title a \<noteq> [] \<and> url a \<noteq> [] \<and> snippet a \<noteq> []"
proof (cases r)
  case (JObj kvs)
  with assms wf_result_News [of kvs] show ?thesis
    by (auto simp: supplied_nonempty_def split: option.splits)
qed (use assms in \<open>simp_all add: wf_result_def\<close>)

lemma News_list_nonempty:
  assumes "\<forall>r\<in>set rs. wf_result r \<and> supplied_nonempty r" and "News_list rs = Inr arts"
  shows "\<forall>a\<in>set arts. title a \<noteq> [] \<and> url a \<noteq> [] \<and> snippet a \<noteq> []"
  using assms
proof (induction rs arbitrary: arts)
  case Nil
  then show ?case by simp
next
  case (Cons r rs)
  from Cons.prems(2) obtain a as where r: "News_of_result r = Inr a"
    and rs: "News_list rs = Inr as" and arts: "arts = a # as"
    by (auto split: sum.splits)
  have "title a \<noteq> [] \<and> url a \<noteq> [] \<and> snippet a \<noteq> []"
    using News_of_result_nonempty [of r a] Cons.prems(1) r by simp
  moreover have "\<forall>a\<in>set as. title a \<noteq> [] \<and> url a \<noteq> [] \<and> snippet a \<noteq> []"
    using Cons.IH [OF _ rs] Cons.prems(1) by simp
  ultimately show ?case using arts by simp
qed

subsection \<open>The search secret\<close>

text \<open>
  Claim C3. When \<^verbatim>\<open>SERPAPI_API_KEY\<close> is absent from the environment at the time of the
  call, \<^verbatim>\<open>SerpAPITool.search\<close> raises the HTTP 500 error with the fixed message
  "SerpAPI API Key not found!" and sends no request to the network.
\<close>

theorem search_missing_key:
  assumes "environ w ''SERPAPI_API_KEY'' = None"
  shows "search w query = ([], Inl (HTTPException 500 ''SerpAPI API Key not found!''))"
  using assms by (simp add: search_def)

theorem search_missing_key_witness:
  "environ \<lparr>environ = Map.empty, dumps = (\<lambda>j. ''{}''), post = (\<lambda>r. Inl ConnectionError)\<rparr>
     ''SERPAPI_API_KEY'' = None
   \<and> search \<lparr>environ = Map.empty, dumps = (\<lambda>j. ''{}''), post = (\<lambda>r. Inl ConnectionError)\<rparr>
       ''Latest news about Acme''
     = ([], Inl (HTTPException 500 ''SerpAPI API Key not found!''))"
  using search_missing_key
    [of "\<lparr>environ = Map.empty, dumps = (\<lambda>j. ''{}''), post = (\<lambda>r. Inl ConnectionError)\<rparr>"
        "''Latest news about Acme''"]
  by simp

subsection \<open>Successful searches\<close>

text \<open>
  Claim C1, as the specification states it, fails: a response with status 200 need not
  carry a list of entries the comprehension can build articles from. Here the second entry
  of the result list is a number, \<^verbatim>\<open>result.get\<close> raises \<^verbatim>\<open>AttributeError\<close> on it, and the
  adapter returns no articles at all.
\<close>

theorem search_malformed_entry_raises:
  "snd (search
        \<lparr>environ = [''SERPAPI_API_KEY'' \<mapsto> ''key''], dumps = (\<lambda>j. ''{}''),
         post = (\<lambda>r. Inr \<lparr>status_code = 200, response_text = ''ok'',
                   response_json = Some (JObj [(''organic'',
                     JArr [JObj [(''title'', JStr ''Acme grows'')], JNum 7])])\<rparr>)\<rparr>
        ''Latest news about Acme'')
   = Inl AttributeError"
  by (simp add: search_def search_request_def handle_response_def py_get_def slice10_def
                News_of_result_def News_init_def)

text \<open>
  Claim C1, amended. When the upstream response has status 200, its body is a JSON object
  with a list under \<^verbatim>\<open>"organic"\<close>, and each of the first ten entries of that list is an
  object whose \<^verbatim>\<open>title\<close>, \<^verbatim>\<open>link\<close> and \<^verbatim>\<open>snippet\<close>, where present, are strings, then
  \<^verbatim>\<open>SerpAPITool.search\<close> returns the articles built from the first ten entries (all of them
  when there are fewer), one per entry and in the order of the upstream list; a list of
  twelve such entries gives exactly its first ten, in order.
\<close>

theorem search_first_ten:
  assumes "environ w ''SERPAPI_API_KEY'' = Some k" and "k \<noteq> []"
    and "post w (search_request w k query) = Inr response"
    and "status_code response = 200"
    and "response_json response = Some (JObj d)"
    and "map_of d ''organic'' = Some (JArr rs)"
    and "\<forall>r\<in>set (take 10 rs). wf_result r"
  shows "\<exists>arts. snd (search w query) = Inr arts
           \<and> length arts = min 10 (length rs)
           \<and> map Inr arts = map News_of_result (take 10 rs)
           \<and> (\<forall>i<length arts. News_of_result (rs ! i) = Inr (arts ! i))"
proof -
  have s: "snd (search w query) = News_list (take 10 rs)"
    using assms(1-6) by (simp add: search_with_key handle_response_organic)
  obtain arts where a: "News_list (take 10 rs) = Inr arts"
    using wf_News_list [OF assms(7)] by blast
  then have m: "map News_of_result (take 10 rs) = map Inr arts"
    by (simp add: News_list_map)
  have l: "length arts = min 10 (length rs)"
    using News_list_length [OF a] by (simp add: min.commute)
  have "News_of_result (rs ! i) = Inr (arts ! i)" if "i < length arts" for i
  proof -
    have "map News_of_result (take 10 rs) ! i = map Inr arts ! i"
      using m by simp
    with that l show ?thesis by simp
  qed
  with s a m l show ?thesis by simp
qed

theorem search_first_ten_witness:
  "snd (search
        \<lparr>environ = [''SERPAPI_API_KEY'' \<mapsto> ''key''], dumps = (\<lambda>j. ''{}''),
         post = (\<lambda>r. Inr \<lparr>status_code = 200, response_text = ''ok'',
                   response_json = Some (JObj [(''organic'',
                     JArr (map (\<lambda>c. JObj [(''title'', JStr [c])]) ''abcdefghijkl''))])\<rparr>)\<rparr>
        ''Latest news about Acme'')
   = Inr (map (\<lambda>c. \<lparr>title = [c], url = ''#'', snippet = ''No Description''\<rparr>) ''abcdefghij'')"
proof -
  let ?rs = "map (\<lambda>c. JObj [(''title'', JStr [c])]) ''abcdefghijkl''"
  let ?response = "\<lparr>status_code = 200, response_text = ''ok'',
                    response_json = Some (JObj [(''organic'', JArr ?rs)])\<rparr>"
  let ?w = "\<lparr>environ = [''SERPAPI_API_KEY'' \<mapsto> ''key''], dumps = (\<lambda>j. ''{}''),
             post = (\<lambda>r. Inr ?response)\<rparr>"
  have "\<exists>arts. snd (search ?w ''Latest news about Acme'') = Inr arts
          \<and> length arts = min 10 (length ?rs)
          \<and> map Inr arts = map News_of_result (take 10 ?rs)
          \<and> (\<forall>i<length arts. News_of_result (?rs ! i) = Inr (arts ! i))"
    by (rule search_first_ten [where k = "''key''" and response = ?response
                                and d = "[(''organic'', JArr ?rs)]"])
       (simp_all add: wf_result_def str_or_absent_def)
  then obtain arts where a: "snd (search ?w ''Latest news about Acme'') = Inr arts"
    and m: "map Inr arts = map News_of_result (take 10 ?rs)"
    by blast
  note m
  also have "map News_of_result (take 10 ?rs)
             = map Inr (map (\<lambda>c. \<lparr>title = [c], url = ''#'', snippet = ''No Description''\<rparr>)
                          ''abcdefghij'')"
    by (simp add: News_of_result_def py_get_def News_init_def)
  finally have "arts = map (\<lambda>c. \<lparr>title = [c], url = ''#'', snippet = ''No Description''\<rparr>)
                           ''abcdefghij''"
    by (rule inj_map_eq_map [OF inj_Inr, THEN iffD1])
  then show ?thesis
    by (rule subst [where P = "\<lambda>x. snd (search _ _) = Inr x"]) (rule a)
qed

text \<open>
  Claim C2, as the specification states it, fails: the placeholder reaches an article only
  if the constructor accepts the other fields. Here the entry has no \<^verbatim>\<open>"link"\<close> and its
  \<^verbatim>\<open>"title"\<close> is \<^verbatim>\<open>null\<close>; the constructor raises, and no article with url "#" is returned.
\<close>

theorem search_missing_link_raises:
  "snd (search
        \<lparr>environ = [''SERPAPI_API_KEY'' \<mapsto> ''key''], dumps = (\<lambda>j. ''{}''),
         post = (\<lambda>r. Inr \<lparr>status_code = 200, response_text = ''ok'',
                   response_json = Some (JObj [(''organic'',
                     JArr [JObj [(''title'', JNull)]])])\<rparr>)\<rparr>
        ''Latest news about Acme'')
   = Inl ValidationError"
  by (simp add: search_def search_request_def handle_response_def py_get_def slice10_def
                News_of_result_def News_init_def)

text \<open>
  Claim C2, amended. When each of the first ten entries of the upstream result list is an
  object whose \<^verbatim>\<open>title\<close>, \<^verbatim>\<open>link\<close> and \<^verbatim>\<open>snippet\<close>, where present, are strings, then for
  every one of those entries a missing \<^verbatim>\<open>"title"\<close>, \<^verbatim>\<open>"link"\<close> or \<^verbatim>\<open>"snippet"\<close> becomes the
  placeholder "No Title", "#" or "No Description" in the article at the same position, and
  a field that is present is copied as it is; an entry without \<^verbatim>\<open>"link"\<close> gives an article
  whose url is "#".
\<close>

theorem search_placeholders:
  assumes "environ w ''SERPAPI_API_KEY'' = Some k" and "k \<noteq> []"
    and "post w (search_request w k query) = Inr response"
    and "status_code response = 200"
    and "response_json response = Some (JObj d)"
    and "map_of d ''organic'' = Some (JArr rs)"
    and "\<forall>r\<in>set (take 10 rs). wf_result r"
    and "i < min 10 (length rs)"
    and "rs ! i = JObj kvs"
  shows "\<exists>arts. snd (search w query) = Inr arts \<and> i < length arts
           \<and> (case map_of kvs ''title'' of None \<Rightarrow> title (arts ! i) = ''No Title''
                | Some v \<Rightarrow> v = JStr (title (arts ! i)))
           \<and> (case map_of kvs ''link'' of None \<Rightarrow> url (arts ! i) = ''#''
                | Some v \<Rightarrow> v = JStr (url (arts ! i)))
           \<and> (case map_of kvs ''snippet'' of None \<Rightarrow> snippet (arts ! i) = ''No Description''
                | Some v \<Rightarrow> v = JStr (snippet (arts ! i)))"
proof -
  have s: "snd (search w query) = News_list (take 10 rs)"
    using assms(1-6) by (simp add: search_with_key handle_response_organic)
  obtain arts where a: "News_list (take 10 rs) = Inr arts"
    using wf_News_list [OF assms(7)] by blast
  have l: "length arts = min 10 (length rs)"
    using News_list_length [OF a] by (simp add: min.commute)
  have "map News_of_result (take 10 rs) ! i = map Inr arts ! i"
    using a by (simp add: News_list_map)
  with l assms(8,9) have n: "News_of_result (JObj kvs) = Inr (arts ! i)"
    by simp
  have "rs ! i \<in> set (take 10 rs)"
    using assms(8) by (metis length_take min.commute nth_mem nth_take min_less_iff_conj)
  with assms(7,9) have "wf_result (JObj kvs)"
    by auto
  from wf_result_News [OF this] n s a l assms(8) show ?thesis
    by auto
qed

theorem search_placeholders_witness:
  "\<exists>arts. snd (search
          \<lparr>environ = [''SERPAPI_API_KEY'' \<mapsto> ''key''], dumps = (\<lambda>j. ''{}''),
                 post = (\<lambda>r. Inr \<lparr>status_code = 200, response_text = ''ok'',
                   response_json = Some (JObj [(''organic'',
                     JArr [JObj [(''title'', JStr ''Acme grows''),
                                 (''snippet'', JStr ''Quarterly results'')]])])\<rparr>)\<rparr>
          ''Latest news about Acme'') = Inr arts
     \<and> title (arts ! 0) = ''Acme grows'' \<and> url (arts ! 0) = ''#''
     \<and> snippet (arts ! 0) = ''Quarterly results''"
  using search_placeholders
    [where w = "\<lparr>environ = [''SERPAPI_API_KEY'' \<mapsto> ''key''], dumps = (\<lambda>j. ''{}''),
                 post = (\<lambda>r. Inr \<lparr>status_code = 200, response_text = ''ok'',
                   response_json = Some (JObj [(''organic'',
                     JArr [JObj [(''title'', JStr ''Acme grows''),
                                 (''snippet'', JStr ''Quarterly results'')]])])\<rparr>)\<rparr>"
       and k = "''key''" and query = "''Latest news about Acme''"
       and response = "\<lparr>status_code = 200, response_text = ''ok'',
                   response_json = Some (JObj [(''organic'',
                     JArr [JObj [(''title'', JStr ''Acme grows''),
                                 (''snippet'', JStr ''Quarterly results'')]])])\<rparr>"
       and d = "[(''organic'', JArr [JObj [(''title'', JStr ''Acme grows''),
                                 (''snippet'', JStr ''Quarterly results'')]])]"
       and rs = "[JObj [(''title'', JStr ''Acme grows''), (''snippet'', JStr ''Quarterly results'')]]"
       and i = 0
       and kvs = "[(''title'', JStr ''Acme grows''), (''snippet'', JStr ''Quarterly results'')]"]
  by (auto simp: wf_result_def str_or_absent_def)

text \<open>
  Claim C10. When the upstream call returns status 200 and the JSON object of the body has
  no \<^verbatim>\<open>"organic"\<close> key, \<^verbatim>\<open>SerpAPITool.search\<close> returns the empty list of articles and raises
  nothing; and the success branch is taken for status 200 only, every other status raises
  the HTTP 500 error.
\<close>

theorem search_no_organic:
  assumes "environ w ''SERPAPI_API_KEY'' = Some k" and "k \<noteq> []"
    and "post w (search_request w k query) = Inr response"
  shows "(status_code response = 200 \<and> response_json response = Some (JObj d)
            \<and> map_of d ''organic'' = None
          \<longrightarrow> snd (search w query) = Inr [])
       \<and> (status_code response \<noteq> 200
          \<longrightarrow> (\<exists>detail. snd (search w query) = Inl (HTTPException 500 detail)))"
  using assms
  by (simp add: search_with_key handle_response_def py_get_def slice10_def)

theorem search_no_organic_witness:
  "snd (search
        \<lparr>environ = [''SERPAPI_API_KEY'' \<mapsto> ''key''], dumps = (\<lambda>j. ''{}''),
         post = (\<lambda>r. Inr \<lparr>status_code = 200, response_text = ''{}'',
                             response_json = Some (JObj [])\<rparr>)\<rparr>
        ''Latest news about Acme'') = Inr []
   \<and> (\<exists>detail. snd (search
        \<lparr>environ = [''SERPAPI_API_KEY'' \<mapsto> ''key''], dumps = (\<lambda>j. ''{}''),
         post = (\<lambda>r. Inr \<lparr>status_code = 201, response_text = ''{}'',
                             response_json = Some (JObj [])\<rparr>)\<rparr>
        ''Latest news about Acme'') = Inl (HTTPException 500 detail))"
  using
    search_no_organic
      [where w = "\<lparr>environ = [''SERPAPI_API_KEY'' \<mapsto> ''key''], dumps = (\<lambda>j. ''{}''),
           post = (\<lambda>r. Inr \<lparr>status_code = 200, response_text = ''{}'',
                               response_json = Some (JObj [])\<rparr>)\<rparr>"
         and k = "''key''" and query = "''Latest news about Acme''"
         and response = "\<lparr>status_code = 200, response_text = ''{}'',
                               response_json = Some (JObj [])\<rparr>"
         and d = "[]"]
    search_no_organic
      [where w = "\<lparr>environ = [''SERPAPI_API_KEY'' \<mapsto> ''key''], dumps = (\<lambda>j. ''{}''),
           post = (\<lambda>r. Inr \<lparr>status_code = 201, response_text = ''{}'',
                               response_json = Some (JObj [])\<rparr>)\<rparr>"
         and k = "''key''" and query = "''Latest news about Acme''"
         and response = "\<lparr>status_code = 201, response_text = ''{}'',
                               response_json = Some (JObj [])\<rparr>"
         and d = "[]"]
  by simp

subsection \<open>Upstream failures\<close>

text \<open>
  Claim C4. When the upstream response has a status other than 200 (so in particular any
  status that is not a success status, such as 503), \<^verbatim>\<open>SerpAPITool.search\<close> raises the
  HTTP 500 error whose detail is "SerpAPI Request Failed: " followed by the raw text of the
  upstream response, after the one request it sent.
\<close>

theorem search_upstream_error:
  assumes "environ w ''SERPAPI_API_KEY'' = Some k" and "k \<noteq> []"
    and "post w (search_request w k query) = Inr response"
    and "status_code response \<noteq> 200"
  shows "\<exists>detail. search w query = ([search_request w k query], Inl (HTTPException 500 detail))
           \<and> detail = ''SerpAPI Request Failed: '' @ response_text response
           \<and> suffix (response_text response) detail"
  using assms by (simp add: search_with_key handle_response_def suffix_def)

theorem search_upstream_error_witness:
  "snd (search
        \<lparr>environ = [''SERPAPI_API_KEY'' \<mapsto> ''key''], dumps = (\<lambda>j. ''{}''),
         post = (\<lambda>r. Inr \<lparr>status_code = 503, response_text = ''Service Unavailable'',
                             response_json = None\<rparr>)\<rparr>
        ''Latest news about Acme'')
   = Inl (HTTPException 500 ''SerpAPI Request Failed: Service Unavailable'')"
  using search_upstream_error
    [where w = "\<lparr>environ = [''SERPAPI_API_KEY'' \<mapsto> ''key''], dumps = (\<lambda>j. ''{}''),
         post = (\<lambda>r. Inr \<lparr>status_code = 503, response_text = ''Service Unavailable'',
                             response_json = None\<rparr>)\<rparr>"
       and k = "''key''" and query = "''Latest news about Acme''"
       and response = "\<lparr>status_code = 503, response_text = ''Service Unavailable'',
                             response_json = None\<rparr>"]
  by auto

subsection \<open>The handler\<close>

text \<open>
  Claim C5. When the agent leaves no structured response on the task, the handler of
  \<^verbatim>\<open>POST /get-company-news/\<close> raises the HTTP 500 error with the message
  "Failed to fetch company news." and returns no report.
\<close>

theorem get_company_news_no_response:
  assumes "news_agent (Task_of input_data) = Inr None"
  shows "snd (get_company_news news_agent input_data)
           = Inl (HTTPException 500 ''Failed to fetch company news.'')
         \<and> (\<forall>report. snd (get_company_news news_agent input_data) \<noteq> Inr report)"
  using assms by (simp add: get_company_news_def Let_def)

theorem get_company_news_no_response_witness:
  "snd (get_company_news (\<lambda>t. Inr None) \<lparr>company_name = ''Acme''\<rparr>)
     = Inl (HTTPException 500 ''Failed to fetch company news.'')"
  using get_company_news_no_response [of "\<lambda>t. Inr None" "\<lparr>company_name = ''Acme''\<rparr>"]
  by simp

text \<open>
  Claim C9. Whenever \<^verbatim>\<open>POST /get-company-news/\<close> returns a report, its \<^verbatim>\<open>company_name\<close> is
  the \<^verbatim>\<open>company_name\<close> of the request, character for character: of the validated input
  the handler receives, and of the JSON body the route received.
\<close>

theorem report_company_name_echo:
  "(snd (get_company_news news_agent input_data) = Inr report
      \<longrightarrow> report_company_name report = company_name input_data)
   \<and> (snd (post_get_company_news news_agent body) = Inr report
      \<longrightarrow> (\<exists>kvs. body = JObj kvs
             \<and> map_of kvs ''company_name'' = Some (JStr (report_company_name report))))"
  by (auto simp: get_company_news_Inr post_get_company_news_def CompanyInput_validate_def
           split: json.splits option.splits)

theorem report_company_name_echo_witness:
  "snd (post_get_company_news (\<lambda>t. Inr (Some \<lparr>articles = []\<rparr>))
          (JObj [(''company_name'', JStr ''Acme Corp'')]))
     = Inr \<lparr>report_company_name = ''Acme Corp'', report_articles = []\<rparr>
   \<and> report_company_name \<lparr>report_company_name = ''Acme Corp'', report_articles = []\<rparr>
     = ''Acme Corp''"
  using report_company_name_echo
    [of "\<lambda>t. Inr (Some \<lparr>articles = []\<rparr>)" "\<lparr>company_name = ''Acme Corp''\<rparr>"
        "\<lparr>report_company_name = ''Acme Corp'', report_articles = []\<rparr>"
        "JObj [(''company_name'', JStr ''Acme Corp'')]"]
  by (simp add: post_get_company_news_def CompanyInput_validate_def get_company_news_def
                Task_of_def)

subsection \<open>Request validation\<close>

text \<open>
  Claim C6, as the specification states it, fails: the request schema declares
  \<^verbatim>\<open>company_name: str\<close> with no length constraint, so the body \<^verbatim>\<open>{"company_name": ""}\<close> passes
  validation, the task is built and the agent is invoked.
\<close>

theorem empty_company_name_accepted:
  "post_get_company_news (\<lambda>t. Inr (Some \<lparr>articles = []\<rparr>))
     (JObj [(''company_name'', JStr '''')])
   = ([Task_of \<lparr>company_name = ''''\<rparr>],
      Inr \<lparr>report_company_name = '''', report_articles = []\<rparr>)"
  by (simp add: post_get_company_news_def CompanyInput_validate_def get_company_news_def)

text \<open>
  Claim C6, amended. A request whose body has no \<^verbatim>\<open>company_name\<close> is rejected by the
  request schema before any task is built, so the agent, and with it the search adapter,
  is never invoked; a body whose \<^verbatim>\<open>company_name\<close> is a string, the empty string included,
  passes validation and the agent is invoked once, with the task built from that string.
\<close>

theorem missing_company_name_rejected:
  "(map_of kvs ''company_name'' = None
      \<longrightarrow> post_get_company_news news_agent (JObj kvs) = ([], Inl RequestValidationError))
   \<and> (map_of kvs ''company_name'' = Some (JStr s)
      \<longrightarrow> fst (post_get_company_news news_agent (JObj kvs)) = [Task_of \<lparr>company_name = s\<rparr>])"
  by (auto simp: post_get_company_news_def CompanyInput_validate_def get_company_news_def Let_def
           split: sum.splits option.splits)

theorem missing_company_name_rejected_witness:
  "post_get_company_news (\<lambda>t. Inr (Some \<lparr>articles = []\<rparr>)) (JObj [])
     = ([], Inl RequestValidationError)
   \<and> fst (post_get_company_news (\<lambda>t. Inr (Some \<lparr>articles = []\<rparr>))
            (JObj [(''company_name'', JStr ''Acme'')]))
     = [Task_of \<lparr>company_name = ''Acme''\<rparr>]"
  using
    missing_company_name_rejected [of "[]" "\<lambda>t. Inr (Some \<lparr>articles = []\<rparr>)"]
    missing_company_name_rejected
      [of "[(''company_name'', JStr ''Acme'')]" "\<lambda>t. Inr (Some \<lparr>articles = []\<rparr>)" "''Acme''"]
  by simp

subsection \<open>The articles of a report\<close>

text \<open>
  Claim C7, as the specification states it, fails: the handler forwards the articles of
  the agent's structured response without truncating them, so a response of eleven
  articles gives a report of eleven articles.
\<close>

theorem report_articles_unbounded:
  "snd (get_company_news
          (\<lambda>t. Inr (Some \<lparr>articles = replicate 11 \<lparr>title = ''t'', url = ''u'', snippet = ''s''\<rparr>\<rparr>))
          \<lparr>company_name = ''Acme''\<rparr>)
     = Inr \<lparr>report_company_name = ''Acme'',
            report_articles = replicate 11 \<lparr>title = ''t'', url = ''u'', snippet = ''s''\<rparr>\<rparr>
   \<and> \<not> length (report_articles
          \<lparr>report_company_name = ''Acme'',
           report_articles = replicate 11 \<lparr>title = ''t'', url = ''u'', snippet = ''s''\<rparr>\<rparr>) \<le> 10"
  by (simp add: get_company_news_def)

text \<open>
  Claim C7, amended. For every company name, the articles of a successful response are
  the articles of the agent's structured response, unchanged; their number is between 0
  and 10 whenever that list is one the search adapter returned.
\<close>

theorem report_articles_from_agent:
  assumes "snd (get_company_news news_agent input_data) = Inr report"
  shows "\<exists>nd. news_agent (Task_of input_data) = Inr (Some nd)
           \<and> report_articles report = articles nd
           \<and> (\<forall>w query. snd (search w query) = Inr (articles nd)
                  \<longrightarrow> length (report_articles report) \<le> 10)"
proof -
  from assms obtain nd where nd: "news_agent (Task_of input_data) = Inr (Some nd)"
    and r: "report_articles report = articles nd"
    by (auto simp: get_company_news_Inr)
  have "length (report_articles report) \<le> 10"
    if "snd (search w query) = Inr (articles nd)" for w query
    using search_length [OF that] r by simp
  with nd r show ?thesis by blast
qed

theorem report_articles_from_agent_witness:
  "snd (get_company_news
          (\<lambda>t. Inr (Some \<lparr>articles = [\<lparr>title = ''Acme grows'', url = ''#'', snippet = ''No Description''\<rparr>]\<rparr>))
          \<lparr>company_name = ''Acme''\<rparr>)
     = Inr \<lparr>report_company_name = ''Acme'',
            report_articles = [\<lparr>title = ''Acme grows'', url = ''#'', snippet = ''No Description''\<rparr>]\<rparr>
   \<and> (\<exists>nd. (\<lambda>t. Inr (Some \<lparr>articles = [\<lparr>title = ''Acme grows'', url = ''#'', snippet = ''No Description''\<rparr>]\<rparr>)) (Task_of \<lparr>company_name = ''Acme''\<rparr>) = Inr (Some nd)
          \<and> articles nd = [\<lparr>title = ''Acme grows'', url = ''#'', snippet = ''No Description''\<rparr>])"
proof -
  have r: "snd (get_company_news
                 (\<lambda>t. Inr (Some \<lparr>articles = [\<lparr>title = ''Acme grows'', url = ''#'', snippet = ''No Description''\<rparr>]\<rparr>))
                 \<lparr>company_name = ''Acme''\<rparr>)
           = Inr \<lparr>report_company_name = ''Acme'',
                  report_articles =
                    [\<lparr>title = ''Acme grows'', url = ''#'', snippet = ''No Description''\<rparr>]\<rparr>"
    by (simp add: get_company_news_def)
  from report_articles_from_agent [OF r] r show ?thesis by auto
qed

text \<open>
  Claim C8, as the specification states it, fails: \<^verbatim>\<open>result.get("title", "No Title")\<close> returns
  the placeholder only when the key is missing, so a title supplied as the empty string
  reaches the article, and through an agent that relays the adapter's list, the response.
\<close>

theorem empty_title_passes_through:
  "snd (search
        \<lparr>environ = [''SERPAPI_API_KEY'' \<mapsto> ''key''], dumps = (\<lambda>j. ''{}''),
         post = (\<lambda>r. Inr \<lparr>status_code = 200, response_text = ''ok'',
                   response_json = Some (JObj [(''organic'',
                     JArr [JObj [(''title'', JStr '''')]])])\<rparr>)\<rparr>
        ''Latest news about Acme'')
     = Inr [\<lparr>title = '''', url = ''#'', snippet = ''No Description''\<rparr>]
   \<and> snd (get_company_news
          (\<lambda>t. Inr (Some \<lparr>articles = [\<lparr>title = '''', url = ''#'', snippet = ''No Description''\<rparr>]\<rparr>))
          \<lparr>company_name = ''Acme''\<rparr>)
     = Inr \<lparr>report_company_name = ''Acme'',
            report_articles = [\<lparr>title = '''', url = ''#'', snippet = ''No Description''\<rparr>]\<rparr>"
  by (simp add: search_def search_request_def handle_response_def py_get_def slice10_def
                News_of_result_def News_init_def get_company_news_def)

text \<open>
  Claim C8, amended. Every article of a successful response whose articles are the list
  the search adapter returned has a non-empty title, url and snippet, provided that each
  of the upstream entries either omits a field (the placeholder is substituted) or
  supplies it as a non-empty string.
\<close>

theorem report_fields_nonempty:
  assumes "environ w ''SERPAPI_API_KEY'' = Some k" and "k \<noteq> []"
    and "post w (search_request w k query) = Inr response"
    and "status_code response = 200"
    and "response_json response = Some (JObj d)"
    and "map_of d ''organic'' = Some (JArr rs)"
    and "\<forall>r\<in>set (take 10 rs). wf_result r \<and> supplied_nonempty r"
    and "news_agent (Task_of input_data) = Inr (Some nd)"
    and "snd (search w query) = Inr (articles nd)"
  shows "\<exists>report. snd (get_company_news news_agent input_data) = Inr report
           \<and> report_articles report = articles nd
           \<and> (\<forall>a\<in>set (report_articles report).
                  title a \<noteq> [] \<and> url a \<noteq> [] \<and> snippet a \<noteq> [])"
proof -
  have "snd (search w query) = News_list (take 10 rs)"
    using assms(1-6) by (simp add: search_with_key handle_response_organic)
  with assms(9) have "News_list (take 10 rs) = Inr (articles nd)"
    by simp
  from News_list_nonempty [OF assms(7) this]
  have "\<forall>a\<in>set (articles nd). title a \<noteq> [] \<and> url a \<noteq> [] \<and> snippet a \<noteq> []" .
  with assms(8) show ?thesis
    by (simp add: get_company_news_Inr)
qed

theorem report_fields_nonempty_witness:
  "\<exists>report. snd (get_company_news
          (\<lambda>t. Inr (Some \<lparr>articles = [\<lparr>title = ''Acme grows'', url = ''#'', snippet = ''No Description''\<rparr>]\<rparr>))
          \<lparr>company_name = ''Acme''\<rparr>) = Inr report
     \<and> report_articles report
         = [\<lparr>title = ''Acme grows'', url = ''#'', snippet = ''No Description''\<rparr>]
     \<and> (\<forall>a\<in>set (report_articles report).
            title a \<noteq> [] \<and> url a \<noteq> [] \<and> snippet a \<noteq> [])"
proof -
  let ?rs = "[JObj [(''title'', JStr ''Acme grows'')]]"
  let ?response = "\<lparr>status_code = 200, response_text = ''ok'',
                    response_json = Some (JObj [(''organic'', JArr ?rs)])\<rparr>"
  let ?w = "\<lparr>environ = [''SERPAPI_API_KEY'' \<mapsto> ''key''], dumps = (\<lambda>j. ''{}''),
             post = (\<lambda>r. Inr ?response)\<rparr>"
  let ?nd = "\<lparr>articles = [\<lparr>title = ''Acme grows'', url = ''#'', snippet = ''No Description''\<rparr>]\<rparr>"
  have s: "snd (search ?w ''Latest news about Acme'') = Inr (articles ?nd)"
    by (simp add: search_def search_request_def handle_response_def py_get_def slice10_def
                  News_of_result_def News_init_def)
  have "\<exists>report. snd (get_company_news (\<lambda>t. Inr (Some ?nd)) \<lparr>company_name = ''Acme''\<rparr>)
                    = Inr report
          \<and> report_articles report = articles ?nd
          \<and> (\<forall>a\<in>set (report_articles report).
                 title a \<noteq> [] \<and> url a \<noteq> [] \<and> snippet a \<noteq> [])"
    by (rule report_fields_nonempty
              [where w = ?w and k = "''key''" and query = "''Latest news about Acme''"
                 and response = ?response and d = "[(''organic'', JArr ?rs)]" and rs = ?rs])
       (simp_all add: wf_result_def str_or_absent_def supplied_nonempty_def s)
  then show ?thesis by simp
qed

end
